theory Spec2Isabelle
  imports Complex_Main
begin

section \<open>JavaScript numbers\<close>

text \<open>
  Every quantity of the renderer is a JavaScript \<^verbatim>\<open>number\<close>. The model keeps the
  values that JavaScript arithmetic can produce from a division by zero (the two
  infinities and NaN) and takes the finite values to be exact reals: rounding,
  overflow to infinity and the sign of zero are not modelled. A division of a
  non-zero finite value by zero gives the infinity with the sign of the dividend,
  \<^verbatim>\<open>0 / 0\<close> gives NaN, and every comparison with NaN is false.

  What is proved below about sums, products and quotients of finite values is
  therefore proved in exact arithmetic. The doubles of the source differ from it
  where a sum absorbs its small term (\<^verbatim>\<open>1e17 + 4\<close> is \<^verbatim>\<open>1e17\<close>), where a product or
  a sum overflows to infinity, and where a rounded quotient lies on the other side
  of a whole number than the exact one. Comparisons, \<^verbatim>\<open>Math.max\<close>, \<^verbatim>\<open>Math.min\<close> and
  \<^verbatim>\<open>Math.ceil\<close> are exact in both.
\<close>

datatype number = Fin real | PosInf | NegInf | NaN

fun signOf :: "number \<Rightarrow> real" where
  "signOf (Fin a) = sgn a"
| "signOf PosInf = 1"
| "signOf NegInf = - 1"
| "signOf NaN = 0"

definition infOfSign :: "real \<Rightarrow> number" where
  "infOfSign s = (if s = 0 then NaN else if 0 < s then PosInf else NegInf)"

instantiation number :: "{plus, minus, times, inverse, ord}"
begin

fun plus_number :: "number \<Rightarrow> number \<Rightarrow> number" where
  "Fin a + Fin b = Fin (a + b)"
| "NaN + _ = NaN"
| "_ + NaN = NaN"
| "PosInf + NegInf = NaN"
| "NegInf + PosInf = NaN"
| "PosInf + _ = PosInf"
| "_ + PosInf = PosInf"
| "NegInf + _ = NegInf"
| "_ + NegInf = NegInf"

fun minus_number :: "number \<Rightarrow> number \<Rightarrow> number" where
  "Fin a - Fin b = Fin (a - b)"
| "NaN - _ = NaN"
| "_ - NaN = NaN"
| "PosInf - PosInf = NaN"
| "NegInf - NegInf = NaN"
| "PosInf - _ = PosInf"
| "_ - PosInf = NegInf"
| "NegInf - _ = NegInf"
| "_ - NegInf = PosInf"

fun times_number :: "number \<Rightarrow> number \<Rightarrow> number" where
  "Fin a * Fin b = Fin (a * b)"
| "NaN * _ = NaN"
| "_ * NaN = NaN"
| "a * b = infOfSign (signOf a * signOf b)"

fun divide_number :: "number \<Rightarrow> number \<Rightarrow> number" where
  "Fin a div Fin b = (if b = 0 then infOfSign (sgn a) else Fin (a / b))"
| "NaN div _ = NaN"
| "_ div NaN = NaN"
| "Fin a div _ = Fin 0"
| "a div Fin b = infOfSign (signOf a * (if b < 0 then - 1 else 1))"
| "_ div _ = NaN"

definition inverse_number :: "number \<Rightarrow> number" where
  "inverse_number a = Fin 1 div a"

fun less_number :: "number \<Rightarrow> number \<Rightarrow> bool" where
  "Fin a < Fin b \<longleftrightarrow> a < b"
| "NaN < _ \<longleftrightarrow> False"
| "_ < NaN \<longleftrightarrow> False"
| "PosInf < _ \<longleftrightarrow> False"
| "_ < PosInf \<longleftrightarrow> True"
| "_ < NegInf \<longleftrightarrow> False"
| "NegInf < _ \<longleftrightarrow> True"

fun less_eq_number :: "number \<Rightarrow> number \<Rightarrow> bool" where
  "Fin a \<le> Fin b \<longleftrightarrow> a \<le> b"
| "NaN \<le> _ \<longleftrightarrow> False"
| "_ \<le> NaN \<longleftrightarrow> False"
| "_ \<le> PosInf \<longleftrightarrow> True"
| "NegInf \<le> _ \<longleftrightarrow> True"
| "(_ :: number) \<le> _ \<longleftrightarrow> False"

instance ..

end

text \<open>\<^verbatim>\<open>Math.max\<close>, \<^verbatim>\<open>Math.min\<close> and \<^verbatim>\<open>Math.ceil\<close>: NaN if an argument is NaN.\<close>

fun Math_max :: "number \<Rightarrow> number \<Rightarrow> number" where
  "Math_max NaN _ = NaN"
| "Math_max _ NaN = NaN"
| "Math_max a b = (if a \<le> b then b else a)"

fun Math_min :: "number \<Rightarrow> number \<Rightarrow> number" where
  "Math_min NaN _ = NaN"
| "Math_min _ NaN = NaN"
| "Math_min a b = (if a \<le> b then a else b)"

fun Math_ceil :: "number \<Rightarrow> number" where
  "Math_ceil (Fin a) = Fin (of_int \<lceil>a\<rceil>)"
| "Math_ceil a = a"

text \<open>The truth value of a number in a condition: false for zero and NaN.\<close>

fun truthy :: "number \<Rightarrow> bool" where
  "truthy (Fin a) \<longleftrightarrow> a \<noteq> 0"
| "truthy NaN \<longleftrightarrow> False"
| "truthy _ \<longleftrightarrow> True"

fun isFinite :: "number \<Rightarrow> bool" where
  "isFinite (Fin _) \<longleftrightarrow> True"
| "isFinite _ \<longleftrightarrow> False"

fun val :: "number \<Rightarrow> real" where
  "val (Fin a) = a"
| "val _ = 0"

section \<open>Data model\<close>

text \<open>
  The interfaces \<^verbatim>\<open>Note\<close>, \<^verbatim>\<open>TimingPoint\<close> and \<^verbatim>\<open>Beatmap\<close>. The optional field
  \<^verbatim>\<open>end\<close> of a note is \<open>end_time\<close> here, \<open>None\<close> when it is undefined, and
  the field \<^verbatim>\<open>notes\<close> of a beatmap is \<open>beatmap_notes\<close>.
\<close>

record Note =
  column :: number
  start :: number
  end_time :: "number option"

record TimingPoint =
  time :: number
  bpm :: number
  meter :: number

record Beatmap =
  keys :: number
  beatmap_notes :: "Note list"
  timingPoints :: "TimingPoint list"

section \<open>Bar-line positions\<close>

text \<open>
  \<^verbatim>\<open>[...timingPoints].sort((a, b) => a.time - b.time)\<close>: a stable sort. It is
  modelled as the insertion sort that places a point before the first later point
  the comparator does not order before it; for a consistent comparator every
  stable sort gives this list.
\<close>

fun insertTimingPoint :: "TimingPoint \<Rightarrow> TimingPoint list \<Rightarrow> TimingPoint list" where
  "insertTimingPoint a [] = [a]"
| "insertTimingPoint a (b # bs) =
     (if Fin 0 < time a - time b then b # insertTimingPoint a bs else a # b # bs)"

definition sortTimingPoints :: "TimingPoint list \<Rightarrow> TimingPoint list" where
  "sortTimingPoints tps = foldr insertTimingPoint tps []"

text \<open>
  The inner \<^verbatim>\<open>for\<close> loop of one timing point. It may run forever (a bar duration
  that is zero or negative), so its result is an option: \<open>None\<close> when it does not
  return.
\<close>

partial_function (option) barLoop ::
  "number \<Rightarrow> number \<Rightarrow> number \<Rightarrow> number \<Rightarrow> number \<Rightarrow> number list \<Rightarrow> number list option"
where
  "barLoop start_t end_t nextTime barDuration currentTime result =
     (if currentTime < nextTime \<and> currentTime \<le> end_t
      then barLoop start_t end_t nextTime barDuration (currentTime + barDuration)
             (if start_t \<le> currentTime then result @ [currentTime] else result)
      else Some result)"

text \<open>The outer loop, over the sorted points from index \<open>i\<close> on.\<close>

fun barSegments ::
  "TimingPoint list \<Rightarrow> number \<Rightarrow> number \<Rightarrow> number list \<Rightarrow> number list option"
where
  "barSegments [] start_t end_t result = Some result"
| "barSegments (tp # rest) start_t end_t result =
     (let nextTime = (case rest of [] \<Rightarrow> end_t | nxt # _ \<Rightarrow> time nxt);
          beatDuration = Fin 60000 / bpm tp;
          barDuration = beatDuration * meter tp
      in case barLoop start_t end_t nextTime barDuration (time tp) result of
           None \<Rightarrow> None
         | Some result' \<Rightarrow> barSegments rest start_t end_t result')"

definition generateBarLinePositions ::
  "TimingPoint list \<Rightarrow> number \<Rightarrow> number \<Rightarrow> number list option"
where
  "generateBarLinePositions tps start_t end_t =
     barSegments (sortTimingPoints tps) start_t end_t []"

section \<open>Options, errors and the layout context\<close>

text \<open>
  The option set after the overrides have been merged into the defaults. The nested
  objects of the source are flattened: \<^verbatim>\<open>options.note.width\<close> is \<open>note_width\<close>, and so
  on. A field that may be \<^verbatim>\<open>undefined\<close> is an option, \<^verbatim>\<open>'auto' | number\<close> is
  \<open>timeSetting\<close>. The fields that no function below reads (colours and styles of the
  background, bar lines and axis, the time direction) are left out, and the two
  replaceable functions of \<^verbatim>\<open>options.note\<close> are the defaults
  \<^verbatim>\<open>createNoteColorSelector()\<close> and \<^verbatim>\<open>createNote\<close>.
\<close>

datatype timeSetting = Auto | Explicit number

datatype stripMode = ModeNum | ModeTime | ModeRatio | ModeOther string

record Options =
  note_width :: number
  note_height :: number
  note_rx :: number
  note_bodyWidth :: number
  note_bodyColor :: "string option"
  time_start :: timeSetting
  time_end :: timeSetting
  time_scale :: number
  axis_width :: number
  strip_mode :: stripMode
  strip_num :: "number option"
  strip_time :: "number option"
  strip_ratio :: "number option"
  layout_margin :: "number \<times> number"
  layout_finalScale :: number
  layout_targetSize :: "(number \<times> number) option"

definition defaultOptions :: Options where
  "defaultOptions =
     \<lparr>note_width = Fin 20, note_height = Fin 6, note_rx = Fin 2, note_bodyWidth = Fin 10,
      note_bodyColor = Some ''#CCCCCC'',
      time_start = Auto, time_end = Auto, time_scale = Fin (1 / 10),
      axis_width = Fin 30,
      strip_mode = ModeNum, strip_num = Some (Fin 8), strip_time = Some (Fin 30000),
      strip_ratio = Some (Fin (3 / 2)),
      layout_margin = (Fin 10, Fin 10), layout_finalScale = Fin 1,
      layout_targetSize = None\<rparr>"

text \<open>
  What a call can throw: the \<^verbatim>\<open>TypeError\<close> of reading \<^verbatim>\<open>.time\<close> of
  \<^verbatim>\<open>timingPoints[0]\<close> when there is no timing point, and one constructor for each
  \<^verbatim>\<open>throw new Error(...)\<close> of the source.
\<close>

datatype error =
    TypeError
  | StripNumMissing
  | StripNumInvalid
  | StripTimeMissing
  | StripTimeInvalid
  | StripNumZero
  | StripRatioMissing
  | StripRatioInvalid
  | StripRatioTooLarge
  | UnsupportedStripMode string
  | TargetSizeInvalid
  | UnsupportedKeys number
  | InvalidColumn number number

text \<open>
  The errors that the source raises itself, by a \<^verbatim>\<open>throw new Error(...)\<close>; the
  \<^verbatim>\<open>TypeError\<close> is raised by the runtime, at a read that no check guards.
\<close>

fun thrownBySource :: "error \<Rightarrow> bool" where
  "thrownBySource TypeError \<longleftrightarrow> False"
| "thrownBySource _ \<longleftrightarrow> True"

record Context =
  ctx_beatmap :: Beatmap
  ctx_options :: Options
  ctx_time_start :: number
  ctx_time_end :: number
  ctx_strip_num :: number
  ctx_strip_width :: number
  ctx_strip_height :: number
  ctx_margin :: "number \<times> number"
  ctx_totalWidth :: number
  ctx_totalHeight :: number
  ctx_finalScale :: number

definition MAX_STRIP_NUM :: int where
  "MAX_STRIP_NUM = 50"

definition MIN_TARGET_DIM :: number where
  "MIN_TARGET_DIM = Fin 32"

definition MAX_TARGET_DIM :: number where
  "MAX_TARGET_DIM = Fin 20000"

definition MAX_RATIO :: number where
  "MAX_RATIO = Fin 20"

section \<open>The resolver\<close>

text \<open>The window start: \<^verbatim>\<open>Math.max(0, beatmap.timingPoints[0].time)\<close> when automatic.\<close>

definition resolveStart :: "Beatmap \<Rightarrow> Options \<Rightarrow> error + number" where
  "resolveStart beatmap options =
     (case time_start options of
        Auto \<Rightarrow>
          (case timingPoints beatmap of
             [] \<Rightarrow> Inl TypeError
           | tp # _ \<Rightarrow> Inr (Math_max (Fin 0) (time tp)))
      | Explicit s \<Rightarrow> Inr s)"

text \<open>\<^verbatim>\<open>note.end ?? note.start\<close>: the end of a note, its start when it has none.\<close>

definition noteEnd :: "Note \<Rightarrow> number" where
  "noteEnd note = (case end_time note of None \<Rightarrow> start note | Some e \<Rightarrow> e)"

text \<open>The end before the padding: the \<^verbatim>\<open>reduce\<close> over the notes, or the explicit end.\<close>

definition baseEnd :: "Beatmap \<Rightarrow> Options \<Rightarrow> number \<Rightarrow> number" where
  "baseEnd beatmap options start_t =
     (case time_end options of
        Auto \<Rightarrow> foldl (\<lambda>mx note. Math_max mx (noteEnd note)) start_t (beatmap_notes beatmap)
      | Explicit e \<Rightarrow> e)"

definition resolveEnd :: "Beatmap \<Rightarrow> Options \<Rightarrow> number \<Rightarrow> number" where
  "resolveEnd beatmap options start_t =
     baseEnd beatmap options start_t + note_height options / time_scale options"

text \<open>
  The closure \<^verbatim>\<open>computeLayout\<close>; the variables \<^verbatim>\<open>start\<close> and \<^verbatim>\<open>end\<close> it captures are
  parameters here.
\<close>

definition computeLayout ::
  "Beatmap \<Rightarrow> Options \<Rightarrow> number \<Rightarrow> number \<Rightarrow> number
     \<Rightarrow> number \<times> number \<times> number \<times> number \<times> number \<times> number"
where
  "computeLayout beatmap options start_t end_t stripNum =
     (let stripWidth = keys beatmap * note_width options + axis_width options;
          stripHeight = (end_t - start_t) * time_scale options / stripNum;
          contentWidth = stripNum * stripWidth;
          contentHeight = stripHeight;
          totalWidth = fst (layout_margin options) * Fin 2 + contentWidth;
          totalHeight = snd (layout_margin options) * Fin 2 + contentHeight
      in (stripWidth, stripHeight, contentWidth, contentHeight, totalWidth, totalHeight))"

text \<open>\<^verbatim>\<open>currentRatio\<close> of the search loop at a strip count.\<close>

definition currentRatio :: "Beatmap \<Rightarrow> Options \<Rightarrow> number \<Rightarrow> number \<Rightarrow> int \<Rightarrow> number" where
  "currentRatio beatmap options start_t end_t stripNum =
     (case computeLayout beatmap options start_t end_t (Fin (of_int stripNum)) of
        (_, _, _, _, totalWidth, totalHeight) \<Rightarrow> totalWidth / totalHeight)"

text \<open>
  The \<^verbatim>\<open>while\<close> loop of the ratio mode. The counter \<^verbatim>\<open>stripNum\<close> starts at 1 and
  only takes whole values, so it is an integer here; the result is its value when
  the loop is left, by the \<^verbatim>\<open>break\<close> or by the loop condition.
\<close>

function ratioSearch ::
  "Beatmap \<Rightarrow> Options \<Rightarrow> number \<Rightarrow> number \<Rightarrow> number \<Rightarrow> int \<Rightarrow> number \<Rightarrow> int"
where
  "ratioSearch beatmap options start_t end_t ratio stripNum lastRatio =
     (if stripNum \<le> MAX_STRIP_NUM then
        (let cur = currentRatio beatmap options start_t end_t stripNum in
         if ratio \<le> cur then
           (if ratio - lastRatio < cur - ratio then stripNum - 1 else stripNum)
         else ratioSearch beatmap options start_t end_t ratio (stripNum + 1) cur)
      else stripNum)"
  by pat_completeness auto
termination
  by (relation "measure (\<lambda>(beatmap, options, start_t, end_t, ratio, stripNum, lastRatio).
        nat (MAX_STRIP_NUM + 1 - stripNum))") auto

declare ratioSearch.simps [simp del]

text \<open>The choice of the strip count; the time mode also moves the end.\<close>

definition resolveStrip ::
  "Beatmap \<Rightarrow> Options \<Rightarrow> number \<Rightarrow> number \<Rightarrow> error + (number \<times> number)"
where
  "resolveStrip beatmap options start_t end_t =
     (case strip_mode options of
        ModeNum \<Rightarrow>
          (case strip_num options of
             None \<Rightarrow> Inl StripNumMissing
           | Some n \<Rightarrow>
               if n \<le> Fin 0 \<or> Fin (of_int MAX_STRIP_NUM) < n then Inl StripNumInvalid
               else Inr (n, end_t))
      | ModeTime \<Rightarrow>
          (case strip_time options of
             None \<Rightarrow> Inl StripTimeMissing
           | Some d \<Rightarrow>
               if d \<le> Fin 0 then Inl StripTimeInvalid
               else
                 (let stripNum =
                        Math_min (Math_ceil ((end_t - start_t) / d)) (Fin (of_int MAX_STRIP_NUM))
                  in if stripNum \<le> Fin 0 then Inl StripNumZero
                     else Inr (stripNum, start_t + stripNum * d)))
      | ModeRatio \<Rightarrow>
          (case strip_ratio options of
             None \<Rightarrow> Inl StripRatioMissing
           | Some r \<Rightarrow>
               if r \<le> Fin 0 then Inl StripRatioInvalid
               else if MAX_RATIO < r then Inl StripRatioTooLarge
               else Inr (Fin (of_int (ratioSearch beatmap options start_t end_t r 1 (Fin 0))),
                         end_t))
      | ModeOther m \<Rightarrow> Inl (UnsupportedStripMode m))"

text \<open>
  The rest of \<^verbatim>\<open>resolveOptions\<close>, from the final call of \<^verbatim>\<open>computeLayout\<close> on: the
  layout of the chosen strip count, the fit to \<^verbatim>\<open>layout.targetSize\<close> when it is set,
  and the returned object.
\<close>

definition fitLayout ::
  "Beatmap \<Rightarrow> Options \<Rightarrow> number \<Rightarrow> number \<Rightarrow> number \<Rightarrow> error + Context"
where
  "fitLayout beatmap options start_t end_t stripNum =
     (case computeLayout beatmap options start_t end_t stripNum of
        (stripWidth, stripHeight, contentWidth, contentHeight, totalWidth, totalHeight) \<Rightarrow>
          (case layout_targetSize options of
             None \<Rightarrow>
               Inr \<lparr>ctx_beatmap = beatmap, ctx_options = options,
                    ctx_time_start = start_t, ctx_time_end = end_t,
                    ctx_strip_num = stripNum, ctx_strip_width = stripWidth,
                    ctx_strip_height = stripHeight,
                    ctx_margin = layout_margin options,
                    ctx_totalWidth = totalWidth, ctx_totalHeight = totalHeight,
                    ctx_finalScale = layout_finalScale options\<rparr>
           | Some (targetWidth, targetHeight) \<Rightarrow>
               if targetWidth < MIN_TARGET_DIM \<or> MAX_TARGET_DIM < targetWidth \<or>
                  targetHeight < MIN_TARGET_DIM \<or> MAX_TARGET_DIM < targetHeight
               then Inl TargetSizeInvalid
               else
                 (let scaleX = targetWidth / totalWidth;
                      scaleY = targetHeight / totalHeight;
                      finalScale = Math_min (Math_min (layout_finalScale options) scaleX) scaleY;
                      margin0 = Math_max (fst (layout_margin options))
                                  ((targetWidth / finalScale - contentWidth) / Fin 2);
                      margin1 = Math_max (snd (layout_margin options))
                                  ((targetHeight / finalScale - contentHeight) / Fin 2)
                  in Inr \<lparr>ctx_beatmap = beatmap, ctx_options = options,
                          ctx_time_start = start_t, ctx_time_end = end_t,
                          ctx_strip_num = stripNum, ctx_strip_width = stripWidth,
                          ctx_strip_height = stripHeight,
                          ctx_margin = (margin0, margin1),
                          ctx_totalWidth = margin0 * Fin 2 + contentWidth,
                          ctx_totalHeight = margin1 * Fin 2 + contentHeight,
                          ctx_finalScale = finalScale\<rparr>)))"

definition resolveOptions :: "Beatmap \<Rightarrow> Options \<Rightarrow> error + Context" where
  "resolveOptions beatmap options =
     (case resolveStart beatmap options of
        Inl e \<Rightarrow> Inl e
      | Inr start_t \<Rightarrow>
          (case resolveStrip beatmap options start_t (resolveEnd beatmap options start_t) of
             Inl e \<Rightarrow> Inl e
           | Inr (stripNum, end_t) \<Rightarrow> fitLayout beatmap options start_t end_t stripNum))"

section \<open>The note emitter\<close>

definition presetColorSchemes :: "string list" where
  "presetColorSchemes = [''#FFFFFF'', ''#5EAEFF'', ''#FFEC5E'', ''#FF3F00'']"

definition presetKeyLayouts :: "(number \<times> nat list) list" where
  "presetKeyLayouts =
     [(Fin 1, [0]),
      (Fin 2, [0, 0]),
      (Fin 3, [0, 1, 0]),
      (Fin 4, [0, 1, 1, 0]),
      (Fin 5, [0, 1, 2, 1, 0]),
      (Fin 6, [0, 1, 0, 0, 1, 0]),
      (Fin 7, [0, 1, 0, 2, 0, 1, 0]),
      (Fin 8, [0, 1, 0, 2, 2, 0, 1, 0]),
      (Fin 9, [3, 0, 1, 0, 2, 0, 1, 0, 3]),
      (Fin 10, [3, 0, 1, 0, 2, 2, 0, 1, 0, 3]),
      (Fin 12, [3, 1, 0, 1, 0, 2, 2, 0, 1, 0, 1, 3]),
      (Fin 14, [3, 0, 1, 0, 1, 0, 2, 2, 0, 1, 0, 1, 0, 3]),
      (Fin 16, [3, 1, 0, 1, 0, 1, 0, 2, 2, 0, 1, 0, 1, 0, 1, 3]),
      (Fin 18, [3, 0, 1, 0, 1, 0, 1, 0, 2, 2, 0, 1, 0, 1, 0, 1, 0, 3])]"

text \<open>
  Reading an array at a number: the element when the number is a whole index of
  the array, \<^verbatim>\<open>undefined\<close> (here \<open>None\<close>) otherwise.
\<close>

fun arrayGet :: "'a list \<Rightarrow> number \<Rightarrow> 'a option" where
  "arrayGet xs (Fin c) =
     (if of_int \<lfloor>c\<rfloor> = c \<and> 0 \<le> c \<and> c < real (length xs) then Some (xs ! nat \<lfloor>c\<rfloor>) else None)"
| "arrayGet xs _ = None"

text \<open>
  The selector returned by \<^verbatim>\<open>createNoteColorSelector()\<close> with its default arguments.
  Every entry of a preset layout is an index of the preset colours.
\<close>

definition colorSelector :: "number \<Rightarrow> Note \<Rightarrow> error + string" where
  "colorSelector ks object =
     (case map_of presetKeyLayouts ks of
        None \<Rightarrow> Inl (UnsupportedKeys ks)
      | Some layout \<Rightarrow>
          (case arrayGet layout (column object) of
             None \<Rightarrow> Inl (InvalidColumn (column object) ks)
           | Some colorKey \<Rightarrow> Inr (presetColorSchemes ! colorKey)))"

text \<open>
  A \<^verbatim>\<open><rect>\<close> element, by the numbers and the colour that the source writes into
  its attributes; the body of a long note has no \<^verbatim>\<open>rx\<close>.
\<close>

record Rect =
  rect_x :: number
  rect_y :: number
  rect_width :: number
  rect_height :: number
  rect_rx :: "number option"
  rect_fill :: string

definition createNote :: "Context \<Rightarrow> Note \<Rightarrow> error + Rect list" where
  "createNote ctx note =
     (let x = column note * note_width (ctx_options ctx);
          y = (start note - ctx_time_start ctx) * time_scale (ctx_options ctx);
          noteY = y - note_height (ctx_options ctx) / Fin 2;
          width = note_width (ctx_options ctx)
      in case colorSelector (keys (ctx_beatmap ctx)) note of
           Inl e \<Rightarrow> Inl e
         | Inr color \<Rightarrow>
             (let shapes = [\<lparr>rect_x = x, rect_y = noteY, rect_width = width,
                             rect_height = note_height (ctx_options ctx),
                             rect_rx = Some (note_rx (ctx_options ctx)), rect_fill = color\<rparr>]
              in case end_time note of
                   None \<Rightarrow> Inr shapes
                 | Some e \<Rightarrow>
                     if truthy e then
                       (let lnX = x + (width - note_bodyWidth (ctx_options ctx)) / Fin 2;
                            lnY = y + note_height (ctx_options ctx) / Fin 2;
                            lnWidth = note_bodyWidth (ctx_options ctx);
                            lnHeight = (e - start note) * time_scale (ctx_options ctx)
                                         - note_height (ctx_options ctx);
                            lnColor = (case note_bodyColor (ctx_options ctx) of
                                         None \<Rightarrow> color | Some c \<Rightarrow> c)
                        in if Fin 0 < lnHeight
                           then Inr (shapes @ [\<lparr>rect_x = lnX, rect_y = lnY, rect_width = lnWidth,
                                                rect_height = lnHeight, rect_rx = None,
                                                rect_fill = lnColor\<rparr>])
                           else Inr shapes)
                     else Inr shapes))"

text \<open>
  The first two statements of \<^verbatim>\<open>render\<close>: the context is resolved and every note of
  the beatmap is given to \<^verbatim>\<open>createNote\<close>, in order, the first error ending the call.
\<close>

fun flatMapNotes :: "Context \<Rightarrow> Note list \<Rightarrow> error + Rect list" where
  "flatMapNotes ctx [] = Inr []"
| "flatMapNotes ctx (note # rest) =
     (case createNote ctx note of
        Inl e \<Rightarrow> Inl e
      | Inr shapes \<Rightarrow>
          (case flatMapNotes ctx rest of
             Inl e \<Rightarrow> Inl e
           | Inr others \<Rightarrow> Inr (shapes @ others)))"

definition renderNotes :: "Beatmap \<Rightarrow> Options \<Rightarrow> error + Rect list" where
  "renderNotes beatmap options =
     (case resolveOptions beatmap options of
        Inl e \<Rightarrow> Inl e
      | Inr ctx \<Rightarrow> flatMapNotes ctx (beatmap_notes beatmap))"

section \<open>An example chart\<close>

text \<open>
  A chart of four columns with a tap, a long note and one timing point, and the
  context that the resolver gives it under the default options.
\<close>

definition exampleChart :: Beatmap where
  "exampleChart =
     \<lparr>keys = Fin 4,
      beatmap_notes = [\<lparr>column = Fin 1, start = Fin 1000, end_time = None\<rparr>,
                       \<lparr>column = Fin 2, start = Fin 2000, end_time = Some (Fin 3000)\<rparr>],
      timingPoints = [\<lparr>time = Fin 0, bpm = Fin 60, meter = Fin 4\<rparr>]\<rparr>"

definition exampleContext :: Context where
  "exampleContext =
     \<lparr>ctx_beatmap = exampleChart, ctx_options = defaultOptions,
      ctx_time_start = Fin 0, ctx_time_end = Fin 3060,
      ctx_strip_num = Fin 8, ctx_strip_width = Fin 110, ctx_strip_height = Fin (153 / 4),
      ctx_margin = (Fin 10, Fin 10),
      ctx_totalWidth = Fin 900, ctx_totalHeight = Fin (233 / 4),
      ctx_finalScale = Fin 1\<rparr>"

text \<open>
  Options of the ratio mode under which the example chart has a content of 100 by
  100 pixels and no margin: the aspect ratio is 1 with one strip and 4 with two.
\<close>

definition squareOptions :: "number \<Rightarrow> Options" where
  "squareOptions r =
     defaultOptions\<lparr>axis_width := Fin 20, time_start := Explicit (Fin 0),
       time_end := Explicit (Fin 94), time_scale := Fin 1, strip_mode := ModeRatio,
       strip_ratio := Some r, layout_margin := (Fin 0, Fin 0)\<rparr>"

section \<open>Facts about the arithmetic and the parts of the resolver\<close>

lemma pos_not_le: "Fin 0 < r \<Longrightarrow> \<not> r \<le> Fin 0"
  by (cases r) auto

lemma resolveStrip_not_TypeError: "resolveStrip beatmap options s e \<noteq> Inl TypeError"
  by (simp add: resolveStrip_def Let_def split: stripMode.splits option.splits)

lemma fitLayout_not_TypeError: "fitLayout beatmap options s e n \<noteq> Inl TypeError"
  by (simp add: fitLayout_def Let_def split: prod.splits option.splits)

lemma Math_max_Fin [simp]: "Math_max (Fin a) (Fin b) = Fin (max a b)"
  by (simp add: max_def)

lemma Math_min_Fin [simp]: "Math_min (Fin a) (Fin b) = Fin (min a b)"
  by (simp add: min_def)

lemma isFinite_iff: "isFinite x \<longleftrightarrow> x = Fin (val x)"
  by (cases x) auto

lemma foldl_Math_max_Fin:
  "\<forall>n\<in>set ns. isFinite (noteEnd n) \<Longrightarrow>
   foldl (\<lambda>mx note. Math_max mx (noteEnd note)) (Fin s) ns
     = Fin (Max (insert s ((\<lambda>n. val (noteEnd n)) ` set ns)))"
proof (induction ns arbitrary: s)
  case Nil
  then show ?case by simp
next
  case (Cons a ns)
  from Cons.prems obtain v where v: "noteEnd a = Fin v"
    by (auto simp: isFinite_iff)
  have fin: "finite ((\<lambda>n. val (noteEnd n)) ` set ns)" by simp
  have "foldl (\<lambda>mx note. Math_max mx (noteEnd note)) (Fin s) (a # ns)
      = foldl (\<lambda>mx note. Math_max mx (noteEnd note)) (Fin (max s v)) ns"
    by (simp add: v)
  also have "\<dots> = Fin (Max (insert (max s v) ((\<lambda>n. val (noteEnd n)) ` set ns)))"
    using Cons.prems by (intro Cons.IH) simp
  also have "Max (insert (max s v) ((\<lambda>n. val (noteEnd n)) ` set ns))
      = Max (insert s ((\<lambda>n. val (noteEnd n)) ` set (a # ns)))"
    using fin by (cases "set ns = {}") (simp_all add: v max.assoc)
  finally show ?case .
qed

lemma resolveOptions_InrD:
  assumes "resolveOptions beatmap options = Inr ctx"
  shows "resolveStart beatmap options = Inr (ctx_time_start ctx)"
    and "resolveStrip beatmap options (ctx_time_start ctx)
           (resolveEnd beatmap options (ctx_time_start ctx))
         = Inr (ctx_strip_num ctx, ctx_time_end ctx)"
    and "fitLayout beatmap options (ctx_time_start ctx) (ctx_time_end ctx) (ctx_strip_num ctx)
         = Inr ctx"
  using assms
  by (auto simp: resolveOptions_def fitLayout_def Let_def
      split: sum.splits prod.splits option.splits if_splits)

lemma add_Fin_0: "x + Fin 0 = x"
  by (cases x) auto

lemma le_not_less: "(n :: number) \<le> Fin b \<Longrightarrow> \<not> Fin b < n"
  by (cases n) auto

lemma computeLayout_other_options:
  assumes "note_width o2 = note_width options" and "axis_width o2 = axis_width options"
    and "time_scale o2 = time_scale options" and "layout_margin o2 = layout_margin options"
  shows "computeLayout beatmap o2 s e n = computeLayout beatmap options s e n"
  using assms by (simp add: computeLayout_def)

lemma fitLayout_fields:
  assumes "fitLayout beatmap options s e n = Inr c"
  shows "ctx_time_start c = s" and "ctx_time_end c = e" and "ctx_strip_num c = n"
    and "ctx_strip_width c = keys beatmap * note_width options + axis_width options"
    and "ctx_strip_height c = (e - s) * time_scale options / n"
    and "ctx_beatmap c = beatmap" and "ctx_options c = options"
proof -
  obtain sw sh cw ch tw th where
    l: "computeLayout beatmap options s e n = (sw, sh, cw, ch, tw, th)"
    by (metis prod_cases6)
  then have w: "sw = keys beatmap * note_width options + axis_width options"
    and h: "sh = (e - s) * time_scale options / n"
    by (simp_all add: computeLayout_def Let_def)
  show "ctx_time_start c = s" and "ctx_time_end c = e" and "ctx_strip_num c = n"
    and "ctx_strip_width c = keys beatmap * note_width options + axis_width options"
    and "ctx_strip_height c = (e - s) * time_scale options / n"
    and "ctx_beatmap c = beatmap" and "ctx_options c = options"
    using assms unfolding fitLayout_def l w h
    by (auto simp: Let_def split: option.splits if_splits)
qed

lemma fitLayout_other_options:
  assumes "note_width o2 = note_width options" and "axis_width o2 = axis_width options"
    and "time_scale o2 = time_scale options" and "layout_margin o2 = layout_margin options"
    and "layout_finalScale o2 = layout_finalScale options"
    and "layout_targetSize o2 = layout_targetSize options"
  shows "fitLayout beatmap o2 s e n
           = map_sum id (\<lambda>c. c\<lparr>ctx_options := o2\<rparr>) (fitLayout beatmap options s e n)"
proof -
  obtain sw sh cw ch tw th where
    l: "computeLayout beatmap options s e n = (sw, sh, cw, ch, tw, th)"
    by (metis prod_cases6)
  show ?thesis
    unfolding fitLayout_def computeLayout_other_options [OF assms(1-4)] l
    by (simp add: assms Let_def split: option.splits)
qed

lemma fitLayout_returns:
  assumes "fitLayout beatmap options s e n = Inr c"
  shows "\<exists>c'. fitLayout beatmap options s' e' n' = Inr c'"
proof -
  obtain sw sh cw ch tw th where
    l: "computeLayout beatmap options s e n = (sw, sh, cw, ch, tw, th)"
    by (metis prod_cases6)
  obtain sw' sh' cw' ch' tw' th' where
    l': "computeLayout beatmap options s' e' n' = (sw', sh', cw', ch', tw', th')"
    by (metis prod_cases6)
  show ?thesis
    using assms unfolding fitLayout_def l l'
    by (auto simp: Let_def split: option.splits if_splits)
qed












lemma isFiniteE:
  assumes "isFinite x"
  obtains a where "x = Fin a"
  using assms by (cases x) auto










lemma ratioSearch_first_hit:
  assumes "k \<le> n" and "n \<le> MAX_STRIP_NUM"
    and "\<forall>j. k \<le> j \<and> j < n \<longrightarrow> \<not> r \<le> currentRatio bm opts s e j"
    and "r \<le> currentRatio bm opts s e n"
  shows "ratioSearch bm opts s e r k lastRatio
           = (if r - (if k = n then lastRatio else currentRatio bm opts s e (n - 1))
                   < currentRatio bm opts s e n - r
              then n - 1 else n)"
  using assms
proof (induction "nat (n - k)" arbitrary: k lastRatio)
  case 0
  then have "k = n" by simp
  with "0.prems" show ?case
    by (subst ratioSearch.simps) (simp add: Let_def)
next
  case (Suc m)
  then have lt: "k < n" by linarith
  with Suc.prems have miss: "\<not> r \<le> currentRatio bm opts s e k" and le: "k \<le> MAX_STRIP_NUM"
    by auto
  have "ratioSearch bm opts s e r k lastRatio
          = ratioSearch bm opts s e r (k + 1) (currentRatio bm opts s e k)"
    using miss le by (subst ratioSearch.simps) (simp add: Let_def)
  also have "\<dots> = (if r - (if k + 1 = n then currentRatio bm opts s e k
                              else currentRatio bm opts s e (n - 1))
                        < currentRatio bm opts s e n - r
                   then n - 1 else n)"
  proof (rule Suc.hyps(1))
    show "m = nat (n - (k + 1))" using Suc.hyps(2) by linarith
    show "k + 1 \<le> n" using lt by simp
    show "n \<le> MAX_STRIP_NUM" by (rule Suc.prems(2))
    show "\<forall>j. k + 1 \<le> j \<and> j < n \<longrightarrow> \<not> r \<le> currentRatio bm opts s e j"
      using Suc.prems(3) by auto
    show "r \<le> currentRatio bm opts s e n" by (rule Suc.prems(4))
  qed
  also have "(if k + 1 = n then currentRatio bm opts s e k else currentRatio bm opts s e (n - 1))
               = currentRatio bm opts s e (n - 1)"
    by auto
  finally show ?case using lt by simp
qed

lemma ratioSearch_exhausted:
  assumes "k \<le> MAX_STRIP_NUM + 1"
    and "\<forall>j. k \<le> j \<and> j \<le> MAX_STRIP_NUM \<longrightarrow> \<not> r \<le> currentRatio bm opts s e j"
  shows "ratioSearch bm opts s e r k lastRatio = MAX_STRIP_NUM + 1"
  using assms
proof (induction "nat (MAX_STRIP_NUM + 1 - k)" arbitrary: k lastRatio)
  case 0
  then have "k = MAX_STRIP_NUM + 1" by simp
  then show ?case by (subst ratioSearch.simps) simp
next
  case (Suc m)
  then have le: "k \<le> MAX_STRIP_NUM" by linarith
  with Suc.prems have miss: "\<not> r \<le> currentRatio bm opts s e k" by auto
  have "ratioSearch bm opts s e r k lastRatio
          = ratioSearch bm opts s e r (k + 1) (currentRatio bm opts s e k)"
    using miss le by (subst ratioSearch.simps) (simp add: Let_def)
  also have "\<dots> = MAX_STRIP_NUM + 1"
  proof (rule Suc.hyps(1))
    show "m = nat (MAX_STRIP_NUM + 1 - (k + 1))" using Suc.hyps(2) by linarith
    show "k + 1 \<le> MAX_STRIP_NUM + 1" using le by simp
    show "\<forall>j. k + 1 \<le> j \<and> j \<le> MAX_STRIP_NUM \<longrightarrow> \<not> r \<le> currentRatio bm opts s e j"
      using Suc.prems(2) by auto
  qed
  finally show ?case .
qed










lemmas resolve_defs =
  resolveOptions_def resolveStart_def resolveEnd_def baseEnd_def noteEnd_def resolveStrip_def
  fitLayout_def computeLayout_def defaultOptions_def exampleChart_def exampleContext_def
  squareOptions_def
  MAX_STRIP_NUM_def MIN_TARGET_DIM_def MAX_TARGET_DIM_def MAX_RATIO_def Let_def

lemma exampleContext_resolved: "resolveOptions exampleChart defaultOptions = Inr exampleContext"
  by (simp add: resolve_defs)



section \<open>No timing point and an automatic start\<close>

text \<open>
  C8, as the code has it: when the beatmap has no timing point and the start is
  automatic, the resolver (and with it the rendering of the notes) fails with the
  runtime error of reading the time of the missing first timing point, whatever the
  end setting is; it returns no context. With an explicit start the start is that
  number, and the call never fails with this error.
\<close>

theorem empty_timing_points_without_start:
  "(timingPoints beatmap = [] \<and> time_start options = Auto \<longrightarrow>
      resolveOptions beatmap options = Inl TypeError \<and>
      renderNotes beatmap options = Inl TypeError) \<and>
   (time_start options = Explicit s \<longrightarrow>
      resolveStart beatmap options = Inr s \<and>
      resolveOptions beatmap options \<noteq> Inl TypeError)"
proof (intro conjI impI)
  assume a: "timingPoints beatmap = [] \<and> time_start options = Auto"
  then show r: "resolveOptions beatmap options = Inl TypeError"
    by (simp add: resolveOptions_def resolveStart_def)
  then show "renderNotes beatmap options = Inl TypeError"
    by (simp add: renderNotes_def)
next
  assume e: "time_start options = Explicit s"
  then show s: "resolveStart beatmap options = Inr s"
    by (simp add: resolveStart_def)
  show "resolveOptions beatmap options \<noteq> Inl TypeError"
    using resolveStrip_not_TypeError [of beatmap options s "resolveEnd beatmap options s"]
      fitLayout_not_TypeError [of beatmap options s]
    by (auto simp: resolveOptions_def s split: sum.splits prod.splits)
qed

theorem empty_timing_points_without_start_witness:
  "resolveOptions \<lparr>keys = Fin 4, beatmap_notes = [], timingPoints = []\<rparr> defaultOptions
     = Inl TypeError \<and>
   renderNotes \<lparr>keys = Fin 4, beatmap_notes = [], timingPoints = []\<rparr> defaultOptions
     = Inl TypeError \<and>
   resolveOptions \<lparr>keys = Fin 4, beatmap_notes = [], timingPoints = []\<rparr>
     (defaultOptions\<lparr>time_start := Explicit (Fin 0)\<rparr>) \<noteq> Inl TypeError"
  using empty_timing_points_without_start
          [where beatmap = "\<lparr>keys = Fin 4, beatmap_notes = [], timingPoints = []\<rparr>"
             and options = defaultOptions]
        empty_timing_points_without_start
          [where beatmap = "\<lparr>keys = Fin 4, beatmap_notes = [], timingPoints = []\<rparr>"
             and options = "defaultOptions\<lparr>time_start := Explicit (Fin 0)\<rparr>"
             and s = "Fin 0"]
  by (simp add: defaultOptions_def)

text \<open>
  The error of the empty timing data is not one that the source throws: the source
  has no check for it, and the failure is the \<^verbatim>\<open>TypeError\<close> of the runtime.
\<close>

theorem empty_timing_points_runtime_error_counterexample:
  "resolveOptions \<lparr>keys = Fin 4, beatmap_notes = [], timingPoints = []\<rparr> defaultOptions
     = Inl TypeError \<and>
   \<not> thrownBySource TypeError"
  by (simp add: resolveOptions_def resolveStart_def defaultOptions_def)

section \<open>The end of the window\<close>

text \<open>
  C9, as the code has it: whenever the resolver returns, the end that it hands to
  the choice of the strip count is the base end plus the padding
  \<open>note.height / time.scale\<close>, which is added also to an explicit end; in the modes
  \<open>num\<close> and \<open>ratio\<close> this is the end of the resolved window. The base end is the
  explicit end when one is given; when it is automatic and the start and the notes
  are finite, it is the greatest of the start and the ends of the notes (the start
  of a note that has no end).
\<close>

theorem resolved_end_is_padded_base_end:
  assumes "resolveOptions beatmap options = Inr ctx"
  shows "resolveStrip beatmap options (ctx_time_start ctx)
           (baseEnd beatmap options (ctx_time_start ctx)
              + note_height options / time_scale options)
           = Inr (ctx_strip_num ctx, ctx_time_end ctx) \<and>
         (strip_mode options \<noteq> ModeTime \<longrightarrow>
            ctx_time_end ctx
              = baseEnd beatmap options (ctx_time_start ctx)
                  + note_height options / time_scale options) \<and>
         (\<forall>e. time_end options = Explicit e \<longrightarrow>
            baseEnd beatmap options (ctx_time_start ctx) = e) \<and>
         (time_end options = Auto \<and> isFinite (ctx_time_start ctx) \<and>
          (\<forall>n\<in>set (beatmap_notes beatmap). isFinite (noteEnd n)) \<longrightarrow>
            baseEnd beatmap options (ctx_time_start ctx)
              = Fin (Max (insert (val (ctx_time_start ctx))
                           ((\<lambda>n. val (noteEnd n)) ` set (beatmap_notes beatmap)))))"
proof (intro conjI allI impI)
  show "resolveStrip beatmap options (ctx_time_start ctx)
           (baseEnd beatmap options (ctx_time_start ctx)
              + note_height options / time_scale options)
           = Inr (ctx_strip_num ctx, ctx_time_end ctx)"
    using resolveOptions_InrD(2) [OF assms] by (simp add: resolveEnd_def)
next
  assume m: "strip_mode options \<noteq> ModeTime"
  from resolveOptions_InrD(2) [OF assms] m
  have "ctx_time_end ctx = resolveEnd beatmap options (ctx_time_start ctx)"
    by (auto simp: resolveStrip_def Let_def split: stripMode.splits option.splits if_splits)
  then show "ctx_time_end ctx
           = baseEnd beatmap options (ctx_time_start ctx)
               + note_height options / time_scale options"
    by (simp add: resolveEnd_def)
next
  fix e assume "time_end options = Explicit e"
  then show "baseEnd beatmap options (ctx_time_start ctx) = e"
    by (simp add: baseEnd_def)
next
  assume a: "time_end options = Auto \<and> isFinite (ctx_time_start ctx) \<and>
          (\<forall>n\<in>set (beatmap_notes beatmap). isFinite (noteEnd n))"
  then obtain s where s: "ctx_time_start ctx = Fin s"
    by (auto elim: isFiniteE)
  show "baseEnd beatmap options (ctx_time_start ctx)
              = Fin (Max (insert (val (ctx_time_start ctx))
                           ((\<lambda>n. val (noteEnd n)) ` set (beatmap_notes beatmap))))"
    using a foldl_Math_max_Fin [of "beatmap_notes beatmap" s]
    by (simp add: baseEnd_def s)
qed

theorem resolved_end_is_padded_base_end_witness:
  "resolveOptions exampleChart defaultOptions = Inr exampleContext \<and>
   strip_mode defaultOptions \<noteq> ModeTime \<and>
   time_end defaultOptions = Auto \<and>
   ctx_time_end exampleContext = Fin 3000 + Fin 6 / Fin (1 / 10) \<and>
   baseEnd exampleChart defaultOptions (ctx_time_start exampleContext) = Fin 3000"
proof -
  have r: "resolveOptions exampleChart defaultOptions = Inr exampleContext"
    by (simp add: resolve_defs)
  have m: "strip_mode defaultOptions \<noteq> ModeTime"
    by (simp add: defaultOptions_def)
  have a: "time_end defaultOptions = Auto"
    by (simp add: defaultOptions_def)
  have e: "ctx_time_end exampleContext
             = baseEnd exampleChart defaultOptions (ctx_time_start exampleContext)
                 + note_height defaultOptions / time_scale defaultOptions"
    using resolved_end_is_padded_base_end [OF r] m by blast
  have b: "baseEnd exampleChart defaultOptions (ctx_time_start exampleContext) = Fin 3000"
    by (simp add: baseEnd_def noteEnd_def exampleChart_def exampleContext_def defaultOptions_def)
  have h: "note_height defaultOptions / time_scale defaultOptions = Fin 6 / Fin (1 / 10)"
    by (simp add: defaultOptions_def)
  from e b h have "ctx_time_end exampleContext = Fin 3000 + Fin 6 / Fin (1 / 10)"
    by (simp only:)
  with r m a b show ?thesis by (simp only: simp_thms)
qed

text \<open>
  In the mode \<open>time\<close> the end is assigned again after the padding: for the example
  chart the padded base end is 3060, and the resolved end is 30000.
\<close>

theorem resolved_end_time_mode_counterexample:
  "map_sum id ctx_time_start
     (resolveOptions exampleChart (defaultOptions\<lparr>strip_mode := ModeTime\<rparr>)) = Inr (Fin 0) \<and>
   map_sum id ctx_time_end
     (resolveOptions exampleChart (defaultOptions\<lparr>strip_mode := ModeTime\<rparr>)) = Inr (Fin 30000) \<and>
   baseEnd exampleChart (defaultOptions\<lparr>strip_mode := ModeTime\<rparr>) (Fin 0)
     + note_height (defaultOptions\<lparr>strip_mode := ModeTime\<rparr>)
         / time_scale (defaultOptions\<lparr>strip_mode := ModeTime\<rparr>) = Fin 3060"
  by (simp add: resolve_defs)

section \<open>The strip count of the time mode\<close>






section \<open>The search of the ratio mode\<close>

text \<open>
  C1, as the code has it: in the mode \<open>ratio\<close> with a ratio \<open>r\<close> in the valid range,
  let \<open>n\<close>, from 1 to 50, be the first strip count whose canvas ratio is at least
  \<open>r\<close>. The resolver compares the distance of \<open>r\<close> from the ratio of the count before
  (from 0 when \<open>n\<close> is 1) with the distance of the ratio of \<open>n\<close> from \<open>r\<close>, by a strict
  \<open><\<close>: when the previous distance is not smaller, so also when the two are equal,
  the strip count is \<open>n\<close>; when it is smaller and \<open>n\<close> is at least 2, the strip count
  is \<open>n - 1\<close>.
\<close>

theorem ratio_mode_search:
  assumes "resolveOptions beatmap options = Inr ctx"
    and "strip_mode options = ModeRatio"
    and "strip_ratio options = Some r"
    and "Fin 0 < r" and "r \<le> MAX_RATIO"
    and "1 \<le> n" and "n \<le> MAX_STRIP_NUM"
    and "\<forall>k. 1 \<le> k \<and> k < n \<longrightarrow>
           \<not> r \<le> currentRatio beatmap options (ctx_time_start ctx) (ctx_time_end ctx) k"
    and "r \<le> currentRatio beatmap options (ctx_time_start ctx) (ctx_time_end ctx) n"
  shows "(\<not> r - (if n = 1 then Fin 0
                  else currentRatio beatmap options (ctx_time_start ctx) (ctx_time_end ctx) (n - 1))
              < currentRatio beatmap options (ctx_time_start ctx) (ctx_time_end ctx) n - r
            \<longrightarrow> ctx_strip_num ctx = Fin (of_int n)) \<and>
         (2 \<le> n \<and>
          r - currentRatio beatmap options (ctx_time_start ctx) (ctx_time_end ctx) (n - 1)
              < currentRatio beatmap options (ctx_time_start ctx) (ctx_time_end ctx) n - r
            \<longrightarrow> ctx_strip_num ctx = Fin (of_int (n - 1)))"
proof -
  let ?s = "ctx_time_start ctx" and ?e = "ctx_time_end ctx"
  have nr: "\<not> r \<le> Fin 0" using assms(4) by (rule pos_not_le)
  have nm: "\<not> MAX_RATIO < r" using assms(5) by (cases r) (auto simp: MAX_RATIO_def)
  from resolveOptions_InrD(2) [OF assms(1)] assms(2,3) nr nm
  have e: "?e = resolveEnd beatmap options ?s"
    and n: "ctx_strip_num ctx
              = Fin (of_int (ratioSearch beatmap options ?s (resolveEnd beatmap options ?s) r 1 (Fin 0)))"
    by (auto simp: resolveStrip_def)
  have "ratioSearch beatmap options ?s ?e r 1 (Fin 0)
          = (if r - (if 1 = n then Fin 0 else currentRatio beatmap options ?s ?e (n - 1))
                  < currentRatio beatmap options ?s ?e n - r
             then n - 1 else n)"
    using assms(6-9) by (intro ratioSearch_first_hit) auto
  with n e show ?thesis by auto
qed


theorem ratio_mode_search_witness:
  "resolveOptions exampleChart (squareOptions (Fin (5 / 2)))
     = Inr \<lparr>ctx_beatmap = exampleChart, ctx_options = squareOptions (Fin (5 / 2)),
            ctx_time_start = Fin 0, ctx_time_end = Fin 100,
            ctx_strip_num = Fin 2, ctx_strip_width = Fin 100, ctx_strip_height = Fin 50,
            ctx_margin = (Fin 0, Fin 0),
            ctx_totalWidth = Fin 200, ctx_totalHeight = Fin 50,
            ctx_finalScale = Fin 1\<rparr> \<and>
   strip_mode (squareOptions (Fin (5 / 2))) = ModeRatio \<and>
   strip_ratio (squareOptions (Fin (5 / 2))) = Some (Fin (5 / 2)) \<and>
   Fin 0 < Fin (5 / 2) \<and> Fin (5 / 2) \<le> MAX_RATIO \<and>
   \<not> Fin (5 / 2) \<le> currentRatio exampleChart (squareOptions (Fin (5 / 2))) (Fin 0) (Fin 100) 1 \<and>
   Fin (5 / 2) \<le> currentRatio exampleChart (squareOptions (Fin (5 / 2))) (Fin 0) (Fin 100) 2 \<and>
   \<not> Fin (5 / 2) - currentRatio exampleChart (squareOptions (Fin (5 / 2))) (Fin 0) (Fin 100) 1
       < currentRatio exampleChart (squareOptions (Fin (5 / 2))) (Fin 0) (Fin 100) 2 - Fin (5 / 2)"
proof -
  let ?o = "squareOptions (Fin (5 / 2))"
  let ?c = "\<lparr>ctx_beatmap = exampleChart, ctx_options = ?o,
            ctx_time_start = Fin 0, ctx_time_end = Fin 100,
            ctx_strip_num = Fin 2, ctx_strip_width = Fin 100, ctx_strip_height = Fin 50,
            ctx_margin = (Fin 0, Fin 0),
            ctx_totalWidth = Fin 200, ctx_totalHeight = Fin 50,
            ctx_finalScale = Fin 1\<rparr>"
  have r1: "currentRatio exampleChart ?o (Fin 0) (Fin 100) 1 = Fin 1"
    by (simp add: resolve_defs currentRatio_def)
  have r2: "currentRatio exampleChart ?o (Fin 0) (Fin 100) 2 = Fin 4"
    by (simp add: resolve_defs currentRatio_def)
  have res: "resolveOptions exampleChart ?o = Inr ?c"
    by (simp add: resolve_defs currentRatio_def ratioSearch.simps)
  have m: "strip_mode ?o = ModeRatio" and r: "strip_ratio ?o = Some (Fin (5 / 2))"
    by (simp_all add: squareOptions_def)
  have b: "Fin 0 < Fin (5 / 2)" "Fin (5 / 2) \<le> MAX_RATIO"
    by (simp_all add: MAX_RATIO_def)
  have n: "(1::int) \<le> 2" "2 \<le> MAX_STRIP_NUM"
    by (simp_all add: MAX_STRIP_NUM_def)
  have miss: "\<forall>k. 1 \<le> k \<and> k < 2 \<longrightarrow>
           \<not> Fin (5 / 2) \<le> currentRatio exampleChart ?o (ctx_time_start ?c) (ctx_time_end ?c) k"
  proof (intro allI impI)
    fix k :: int assume "1 \<le> k \<and> k < 2"
    then have "k = 1" by simp
    then show "\<not> Fin (5 / 2) \<le> currentRatio exampleChart ?o (ctx_time_start ?c) (ctx_time_end ?c) k"
      by (simp add: r1)
  qed
  have hit: "Fin (5 / 2) \<le> currentRatio exampleChart ?o (ctx_time_start ?c) (ctx_time_end ?c) 2"
    by (simp add: r2)
  have "ctx_strip_num ?c = Fin (of_int 2)"
    using ratio_mode_search [OF res m r b n miss hit] by (simp add: r1 r2)
  with res m r b show ?thesis by (simp add: r1 r2)
qed


text \<open>
  A tie: with the ratio 5/2 the first count that reaches it is 2, and the ratios 1
  and 4 of the counts 1 and 2 are both 3/2 away. The resolver takes 2 strips, the
  larger count.
\<close>

theorem ratio_tie_counterexample:
  "map_sum id ctx_strip_num (resolveOptions exampleChart (squareOptions (Fin (5 / 2))))
     = Inr (Fin 2) \<and>
   map_sum id ctx_time_start (resolveOptions exampleChart (squareOptions (Fin (5 / 2))))
     = Inr (Fin 0) \<and>
   map_sum id ctx_time_end (resolveOptions exampleChart (squareOptions (Fin (5 / 2))))
     = Inr (Fin 100) \<and>
   currentRatio exampleChart (squareOptions (Fin (5 / 2))) (Fin 0) (Fin 100) 1 = Fin 1 \<and>
   currentRatio exampleChart (squareOptions (Fin (5 / 2))) (Fin 0) (Fin 100) 2 = Fin 4 \<and>
   Fin (5 / 2) - Fin 1 = Fin 4 - Fin (5 / 2)"
  by (simp add: resolve_defs currentRatio_def ratioSearch.simps)

section \<open>Resolving a resolved window again\<close>

text \<open>
  C5, as the code has it: let a first call return a context with a strip count
  \<open>n\<close>, \<open>0 < n \<le> 50\<close>, and let the second call have the explicit start and end of
  that context and the mode \<open>num\<close> with \<open>n\<close>. The second call returns a context with
  the same start, strip count and strip width, but the padding
  \<open>note.height / time.scale\<close> is added to the explicit end again, so the end and the
  strip height are those of the padded window. Where the padding is zero the second
  context has the geometry of the first.
\<close>

theorem reresolving_pads_the_end_again:
  assumes "resolveOptions beatmap options = Inr c1"
    and "Fin 0 < ctx_strip_num c1"
    and "ctx_strip_num c1 \<le> Fin (of_int MAX_STRIP_NUM)"
  shows "\<exists>c2.
           resolveOptions beatmap
             (options\<lparr>time_start := Explicit (ctx_time_start c1),
                      time_end := Explicit (ctx_time_end c1),
                      strip_mode := ModeNum, strip_num := Some (ctx_strip_num c1)\<rparr>) = Inr c2 \<and>
           ctx_time_start c2 = ctx_time_start c1 \<and>
           ctx_strip_num c2 = ctx_strip_num c1 \<and>
           ctx_strip_width c2 = ctx_strip_width c1 \<and>
           ctx_time_end c2 = ctx_time_end c1 + note_height options / time_scale options \<and>
           ctx_strip_height c1
             = (ctx_time_end c1 - ctx_time_start c1) * time_scale options / ctx_strip_num c1 \<and>
           ctx_strip_height c2
             = (ctx_time_end c1 + note_height options / time_scale options - ctx_time_start c1)
                 * time_scale options / ctx_strip_num c1 \<and>
           (note_height options / time_scale options = Fin 0 \<longrightarrow>
              ctx_time_end c2 = ctx_time_end c1 \<and>
              ctx_strip_height c2 = ctx_strip_height c1 \<and>
              ctx_margin c2 = ctx_margin c1 \<and>
              ctx_totalWidth c2 = ctx_totalWidth c1 \<and>
              ctx_totalHeight c2 = ctx_totalHeight c1 \<and>
              ctx_finalScale c2 = ctx_finalScale c1)"
proof -
  let ?s = "ctx_time_start c1" and ?e = "ctx_time_end c1" and ?n = "ctx_strip_num c1"
  let ?pad = "note_height options / time_scale options"
  let ?o2 = "options\<lparr>time_start := Explicit ?s, time_end := Explicit ?e,
                      strip_mode := ModeNum, strip_num := Some ?n\<rparr>"
  have f1: "fitLayout beatmap options ?s ?e ?n = Inr c1"
    by (rule resolveOptions_InrD(3) [OF assms(1)])
  have ok: "\<not> (?n \<le> Fin 0 \<or> Fin (of_int MAX_STRIP_NUM) < ?n)"
    using pos_not_le [OF assms(2)] le_not_less [OF assms(3)] by simp
  have r2: "resolveOptions beatmap ?o2 = fitLayout beatmap ?o2 ?s (?e + ?pad) ?n"
    using ok by (simp add: resolveOptions_def resolveStart_def resolveEnd_def baseEnd_def
        resolveStrip_def)
  have other: "fitLayout beatmap ?o2 s e n
                 = map_sum id (\<lambda>c. c\<lparr>ctx_options := ?o2\<rparr>) (fitLayout beatmap options s e n)"
    for s e n
    by (rule fitLayout_other_options) simp_all
  obtain c where c: "fitLayout beatmap options ?s (?e + ?pad) ?n = Inr c"
    using fitLayout_returns [OF f1] by blast
  define c2 where "c2 = c\<lparr>ctx_options := ?o2\<rparr>"
  have res: "resolveOptions beatmap ?o2 = Inr c2"
    by (simp add: r2 other c c2_def)
  have same: "c = c1" if "?pad = Fin 0"
    using c f1 that by (simp add: add_Fin_0)
  show ?thesis
  proof (intro exI [of _ c2] conjI impI)
    show "resolveOptions beatmap ?o2 = Inr c2" by (rule res)
    show "ctx_time_start c2 = ?s"
      by (simp add: c2_def fitLayout_fields(1) [OF c])
    show "ctx_strip_num c2 = ?n"
      by (simp add: c2_def fitLayout_fields(3) [OF c])
    show "ctx_time_end c2 = ?e + ?pad"
      by (simp add: c2_def fitLayout_fields(2) [OF c])
    show "ctx_strip_width c2 = ctx_strip_width c1"
      by (simp add: c2_def fitLayout_fields(4) [OF c] fitLayout_fields(4) [OF f1])
    show "ctx_strip_height c1 = (?e - ?s) * time_scale options / ?n"
      by (rule fitLayout_fields(5) [OF f1])
    show "ctx_strip_height c2 = (?e + ?pad - ?s) * time_scale options / ?n"
      by (simp add: c2_def fitLayout_fields(5) [OF c])
  next
    assume p: "?pad = Fin 0"
    show "ctx_time_end c2 = ?e" "ctx_strip_height c2 = ctx_strip_height c1"
      "ctx_margin c2 = ctx_margin c1" "ctx_totalWidth c2 = ctx_totalWidth c1"
      "ctx_totalHeight c2 = ctx_totalHeight c1" "ctx_finalScale c2 = ctx_finalScale c1"
      by (simp_all add: c2_def same [OF p])
  qed
qed

theorem reresolving_pads_the_end_again_witness:
  "resolveOptions exampleChart defaultOptions = Inr exampleContext \<and>
   Fin 0 < ctx_strip_num exampleContext \<and>
   ctx_strip_num exampleContext \<le> Fin (of_int MAX_STRIP_NUM) \<and>
   map_sum id ctx_time_end
     (resolveOptions exampleChart
        (defaultOptions\<lparr>time_start := Explicit (ctx_time_start exampleContext),
           time_end := Explicit (ctx_time_end exampleContext),
           strip_mode := ModeNum, strip_num := Some (ctx_strip_num exampleContext)\<rparr>))
     = Inr (ctx_time_end exampleContext + note_height defaultOptions / time_scale defaultOptions)"
proof -
  have r: "resolveOptions exampleChart defaultOptions = Inr exampleContext"
    by (simp add: resolve_defs)
  have p: "Fin 0 < ctx_strip_num exampleContext"
    by (simp add: exampleContext_def)
  have q: "ctx_strip_num exampleContext \<le> Fin (of_int MAX_STRIP_NUM)"
    by (simp add: exampleContext_def MAX_STRIP_NUM_def)
  from reresolving_pads_the_end_again [OF r p q]
  obtain c2 where
    "resolveOptions exampleChart
        (defaultOptions\<lparr>time_start := Explicit (ctx_time_start exampleContext),
           time_end := Explicit (ctx_time_end exampleContext),
           strip_mode := ModeNum, strip_num := Some (ctx_strip_num exampleContext)\<rparr>) = Inr c2"
    and "ctx_time_end c2
           = ctx_time_end exampleContext + note_height defaultOptions / time_scale defaultOptions"
    by blast
  then have "map_sum id ctx_time_end
     (resolveOptions exampleChart
        (defaultOptions\<lparr>time_start := Explicit (ctx_time_start exampleContext),
           time_end := Explicit (ctx_time_end exampleContext),
           strip_mode := ModeNum, strip_num := Some (ctx_strip_num exampleContext)\<rparr>))
     = Inr (ctx_time_end exampleContext + note_height defaultOptions / time_scale defaultOptions)"
    by simp
  with r p q show ?thesis by (simp only: simp_thms)
qed


text \<open>
  The example chart under the default options: the first window ends at 3060 with
  strips 153/4 high; resolved again from that window and its 8 strips, the window
  ends at 3120 and the strips are 39 high.
\<close>

theorem reresolving_drifts_counterexample:
  "resolveOptions exampleChart defaultOptions = Inr exampleContext \<and>
   ctx_time_start exampleContext = Fin 0 \<and>
   ctx_time_end exampleContext = Fin 3060 \<and>
   ctx_strip_num exampleContext = Fin 8 \<and>
   ctx_strip_height exampleContext = Fin (153 / 4) \<and>
   ctx_totalHeight exampleContext = Fin (233 / 4) \<and>
   map_sum id ctx_time_end
     (resolveOptions exampleChart
        (defaultOptions\<lparr>time_start := Explicit (Fin 0), time_end := Explicit (Fin 3060),
           strip_mode := ModeNum, strip_num := Some (Fin 8)\<rparr>)) = Inr (Fin 3120) \<and>
   map_sum id ctx_strip_height
     (resolveOptions exampleChart
        (defaultOptions\<lparr>time_start := Explicit (Fin 0), time_end := Explicit (Fin 3060),
           strip_mode := ModeNum, strip_num := Some (Fin 8)\<rparr>)) = Inr (Fin 39) \<and>
   map_sum id ctx_totalHeight
     (resolveOptions exampleChart
        (defaultOptions\<lparr>time_start := Explicit (Fin 0), time_end := Explicit (Fin 3060),
           strip_mode := ModeNum, strip_num := Some (Fin 8)\<rparr>)) = Inr (Fin 59)"
  by (simp add: resolve_defs)

section \<open>The fit to a target size\<close>





section \<open>The invariant of the layout context\<close>






text \<open>
  The strip count that the search of the mode \<open>ratio\<close> leaves behind can be outside
  1 to 50: it is 0, with strips of infinite height, when the ratio of one strip is
  more than twice the target, and 51 when no count up to 50 reaches the target.
\<close>

lemma ratio_mode_zero_strips:
  "map_sum id ctx_strip_num
     (resolveOptions exampleChart
        (defaultOptions\<lparr>strip_mode := ModeRatio, strip_ratio := Some (Fin (1 / 1000))\<rparr>))
     = Inr (Fin 0) \<and>
   map_sum id ctx_strip_height
     (resolveOptions exampleChart
        (defaultOptions\<lparr>strip_mode := ModeRatio, strip_ratio := Some (Fin (1 / 1000))\<rparr>))
     = Inr PosInf"
  by (simp add: resolve_defs currentRatio_def ratioSearch.simps infOfSign_def)

lemma ratio_mode_51_strips:
  "map_sum id ctx_strip_num
     (resolveOptions exampleChart
        (defaultOptions\<lparr>time_scale := Fin 100, strip_mode := ModeRatio,
           strip_ratio := Some (Fin 20)\<rparr>))
     = Inr (Fin 51)"
  by (simp add: resolve_defs currentRatio_def ratioSearch.simps)

section \<open>Bar lines of a constant tempo\<close>

text \<open>
  C6: for the single timing point \<open>{time: 0, bpm: 120, meter: 4}\<close> and the window
  from 0 to 4000 the generator returns exactly the list 0, 2000; the time 4000 is
  not a member, the bound of the last regime being strict.
\<close>

theorem barlines_single_constant_tempo:
  "generateBarLinePositions
     [\<lparr>time = Fin 0, bpm = Fin 120, meter = Fin 4\<rparr>] (Fin 0) (Fin 4000)
   = Some [Fin 0, Fin 2000]"
  by (simp add: generateBarLinePositions_def sortTimingPoints_def barLoop.simps)


section \<open>Bar lines in increasing order\<close>







section \<open>The notes that are drawn\<close>

text \<open>
  The emitter never looks at the window: for a note whose colour is found it returns
  the cap rectangle, and after it the body rectangle when the end of the note is
  truthy and the body height \<open>(end - start) * time.scale - note.height\<close> is positive.
  The rendering gives every note of the beatmap to the emitter and keeps all the
  rectangles, in order.
\<close>

lemma createNote_emits:
  assumes "colorSelector (keys (ctx_beatmap ctx)) note = Inr color"
  shows "createNote ctx note
           = Inr (\<lparr>rect_x = column note * note_width (ctx_options ctx),
                    rect_y = (start note - ctx_time_start ctx) * time_scale (ctx_options ctx)
                               - note_height (ctx_options ctx) / Fin 2,
                    rect_width = note_width (ctx_options ctx),
                    rect_height = note_height (ctx_options ctx),
                    rect_rx = Some (note_rx (ctx_options ctx)), rect_fill = color\<rparr>
                  # (case end_time note of
                       None \<Rightarrow> []
                     | Some e \<Rightarrow>
                         if truthy e \<and>
                            Fin 0 < (e - start note) * time_scale (ctx_options ctx)
                                      - note_height (ctx_options ctx)
                         then [\<lparr>rect_x = column note * note_width (ctx_options ctx)
                                          + (note_width (ctx_options ctx)
                                               - note_bodyWidth (ctx_options ctx)) / Fin 2,
                                 rect_y = (start note - ctx_time_start ctx)
                                            * time_scale (ctx_options ctx)
                                          + note_height (ctx_options ctx) / Fin 2,
                                 rect_width = note_bodyWidth (ctx_options ctx),
                                 rect_height = (e - start note) * time_scale (ctx_options ctx)
                                                 - note_height (ctx_options ctx),
                                 rect_rx = None,
                                 rect_fill = (case note_bodyColor (ctx_options ctx) of
                                                None \<Rightarrow> color | Some c \<Rightarrow> c)\<rparr>]
                         else []))"
  using assms by (simp add: createNote_def Let_def split: option.splits)

lemma colorSelector_valid_column:
  assumes "map_of presetKeyLayouts ks = Some layout"
    and "column note = Fin (real c)" and "c < length layout"
  shows "colorSelector ks note = Inr (presetColorSchemes ! (layout ! c))"
  using assms by (simp add: colorSelector_def)

lemma flatMapNotes_concat:
  "list_all2 (\<lambda>note shapes. createNote ctx note = Inr shapes) ns sss \<Longrightarrow>
   flatMapNotes ctx ns = Inr (concat sss)"
  by (induction rule: list_all2_induct) simp_all

text \<open>
  C10 at a long note that ends at time 0: in the four-column example chart under the
  default options, the note in column 0 from -1000 to 0 lies before the window and
  has a positive body height, 94. The emitter and the rendering return its cap
  rectangle only: the test \<^verbatim>\<open>if (note.end)\<close> of the emitter takes the end 0 for a
  missing end, while \<^verbatim>\<open>note.end ?? note.start\<close> of the resolver takes it for the end
  of the note.
\<close>

theorem hold_ending_at_zero_has_no_body:
  "createNote exampleContext \<lparr>column = Fin 0, start = Fin (- 1000), end_time = Some (Fin 0)\<rparr>
     = Inr [\<lparr>rect_x = Fin 0, rect_y = Fin (- 103), rect_width = Fin 20, rect_height = Fin 6,
             rect_rx = Some (Fin 2), rect_fill = ''#FFFFFF''\<rparr>] \<and>
   renderNotes
       (exampleChart\<lparr>beatmap_notes :=
          [\<lparr>column = Fin 0, start = Fin (- 1000), end_time = Some (Fin 0)\<rparr>]\<rparr>)
       defaultOptions
     = Inr [\<lparr>rect_x = Fin 0, rect_y = Fin (- 103), rect_width = Fin 20, rect_height = Fin 6,
             rect_rx = Some (Fin 2), rect_fill = ''#FFFFFF''\<rparr>] \<and>
   (Fin 0 - Fin (- 1000)) * time_scale defaultOptions - note_height defaultOptions = Fin 94 \<and>
   Fin 0 < Fin 94 \<and>
   noteEnd \<lparr>column = Fin 0, start = Fin (- 1000), end_time = Some (Fin 0)\<rparr> = Fin 0"
  by (simp add: createNote_def colorSelector_def presetKeyLayouts_def presetColorSchemes_def
      renderNotes_def resolve_defs)


text \<open>The same note ending at time 1 has its body.\<close>

lemma hold_ending_after_zero_has_a_body:
  "createNote exampleContext \<lparr>column = Fin 0, start = Fin (- 1000), end_time = Some (Fin 1)\<rparr>
     = Inr [\<lparr>rect_x = Fin 0, rect_y = Fin (- 103), rect_width = Fin 20, rect_height = Fin 6,
             rect_rx = Some (Fin 2), rect_fill = ''#FFFFFF''\<rparr>,
            \<lparr>rect_x = Fin 5, rect_y = Fin (- 97), rect_width = Fin 10,
             rect_height = Fin (941 / 10), rect_rx = None, rect_fill = ''#CCCCCC''\<rparr>]"
  by (simp add: createNote_def colorSelector_def presetKeyLayouts_def presetColorSchemes_def
      resolve_defs)


end
